theory Spec2Isabelle
  imports Main "HOL-Library.State_Monad"
begin

section \<open>The OpenClaw architecture diagram\<close>

text \<open>
  The repository is one Python script, \<^verbatim>\<open>diagrams/openclaw_diagram.py\<close>. It declares fifteen
  nodes in five nested clusters and connects them with the operators \<^verbatim>\<open>>>\<close> and \<^verbatim>\<open><<\<close> of
  the \<^verbatim>\<open>diagrams\<close> package, inside one \<^verbatim>\<open>with Diagram(...)\<close> block.

  The script is embedded statement by statement as a computation in the state monad over
  the \<^verbatim>\<open>Diagram\<close> object it builds. The classes of the \<^verbatim>\<open>diagrams\<close> package that the script
  imports (lines 1 to 9) are not part of the repository; the operations the script calls
  on them are modelled in the next subsection.
\<close>

subsection \<open>The operations of the diagrams package\<close>

text \<open>
  Modelled from the spec: the classes \<^verbatim>\<open>Diagram\<close>, \<^verbatim>\<open>Cluster\<close>, \<^verbatim>\<open>Node\<close> and \<^verbatim>\<open>Edge\<close> of the
  \<^verbatim>\<open>diagrams\<close> package, which the script imports and the repository does not contain.
  Section 4.1 of the specification names the operations (construct node, construct
  cluster, construct edge) with what each takes and returns. Where it is silent (how
  \<^verbatim>\<open>>>\<close> and \<^verbatim>\<open><<\<close> evaluate, how the direction of an edge is recorded, which attribute wins)
  the definitions follow the package's methods, named at each definition. Arguments the
  script does not pass keep the package's defaults (no \<^verbatim>\<open>nodeid\<close>, \<^verbatim>\<open>autolabel\<close> off, curve
  style \<^verbatim>\<open>ortho\<close>). What only the renderer reads is left out: the file name and the output
  format of the diagram, and the shape, height and image of a node, which the package
  computes from the node's class and label.
\<close>

type_synonym attrs = "string \<rightharpoonup> string"

text \<open>
  What the package fixes and the script does not: the two tables of default attributes
  and the generator of node ids (\<^verbatim>\<open>uuid4().hex\<close>, here the function that gives the \<open>k\<close>-th
  id drawn). They are parameters of the model, so every theorem holds for each choice.
\<close>

record 'id library =
  default_graph_attrs :: attrs
  default_edge_attrs :: attrs
  rand_id :: "nat \<Rightarrow> 'id"

text \<open>
  The node classes the script instantiates, and the module each is imported from
  (lines 2 to 9): the module is the icon category of the node.
\<close>

datatype node_class =
  EC2 | Lambda
  | CloudFront | Route53
  | WAF | SecretsManager | IAMRole | Inspector | Detective
  | SystemsManager | Cloudwatch
  | Eventbridge
  | User
  | Docker
  | Python

fun category :: "node_class \<Rightarrow> string" where
  "category EC2 = ''aws.compute''"
| "category Lambda = ''aws.compute''"
| "category CloudFront = ''aws.network''"
| "category Route53 = ''aws.network''"
| "category WAF = ''aws.security''"
| "category SecretsManager = ''aws.security''"
| "category IAMRole = ''aws.security''"
| "category Inspector = ''aws.security''"
| "category Detective = ''aws.security''"
| "category SystemsManager = ''aws.management''"
| "category Cloudwatch = ''aws.management''"
| "category Eventbridge = ''aws.integration''"
| "category User = ''onprem.client''"
| "category Docker = ''onprem.container''"
| "category Python = ''programming.language''"

text \<open>A \<^verbatim>\<open>Node\<close> object: immutable once constructed, so a handle is the object itself.\<close>

record 'id node =
  nodeid :: 'id
  label :: string
  nclass :: node_class

text \<open>
  The body of a graph: the declarations of its nodes and its subgraphs, in the order they
  were added. A cluster labelled \<open>l\<close> is the subgraph named \<^verbatim>\<open>cluster_\<close>\<open>l\<close>.
\<close>

datatype 'id item =
  NodeLine 'id string node_class
  | Subgraph string "'id item list"

text \<open>An edge of the graph, as \<^verbatim>\<open>Diagram.connect\<close> registers it: tail, head, attributes.\<close>

record 'id edge =
  tail :: 'id
  head :: 'id
  eattrs :: attrs

text \<open>A \<^verbatim>\<open>Cluster\<close> object that has been entered and not yet left.\<close>

record 'id cluster =
  clabel :: string
  depth :: nat
  cbody :: "'id item list"

text \<open>
  The \<^verbatim>\<open>Diagram\<close> object together with the package's context: \<open>cluster_ctx\<close> is the current
  cluster followed by its chain of parents, \<open>rand_count\<close> counts the ids drawn so far.
  Edges are always registered on the diagram itself, never on a cluster; they are kept
  apart from the node and subgraph declarations.
\<close>

record 'id diagram =
  name :: string
  show_image :: bool
  graph_attrs :: attrs
  body :: "'id item list"
  edges :: "'id edge list"
  cluster_ctx :: "'id cluster list"
  rand_count :: nat

datatype error = ValueError string

definition upper_char :: "char \<Rightarrow> char" where
  "upper_char c =
     (case map_of (zip ''abcdefghijklmnopqrstuvwxyz'' ''ABCDEFGHIJKLMNOPQRSTUVWXYZ'') c of
        Some u \<Rightarrow> u
      | None \<Rightarrow> c)"

definition lower_char :: "char \<Rightarrow> char" where
  "lower_char c =
     (case map_of (zip ''ABCDEFGHIJKLMNOPQRSTUVWXYZ'' ''abcdefghijklmnopqrstuvwxyz'') c of
        Some l \<Rightarrow> l
      | None \<Rightarrow> c)"

definition directions :: "string list" where
  "directions = [''TB'', ''BT'', ''LR'', ''RL'']"

definition curvestyles :: "string list" where
  "curvestyles = [''ortho'', ''curved'']"

text \<open>
  \<^verbatim>\<open>Diagram(name, show=..., direction=..., graph_attr=...)\<close>: the defaults first, then the
  title, the direction and the curve style (each checked), and the caller's attributes
  last, so that they override everything set before; \<^verbatim>\<open>with\<close> makes the diagram the
  context.
\<close>

definition Diagram_init ::
  "'id library \<Rightarrow> string \<Rightarrow> bool \<Rightarrow> string \<Rightarrow> string \<Rightarrow> attrs \<Rightarrow> error + 'id diagram" where
  "Diagram_init lib nm shw direction curvestyle graph_attr =
     (if map upper_char direction \<notin> set directions
      then Inl (ValueError direction)
      else if map lower_char curvestyle \<notin> set curvestyles
      then Inl (ValueError curvestyle)
      else Inr \<lparr>name = nm, show_image = shw,
        graph_attrs =
          (default_graph_attrs lib)
            (''label'' \<mapsto> nm, ''rankdir'' \<mapsto> direction, ''splines'' \<mapsto> curvestyle)
          ++ graph_attr,
        body = [], edges = [], cluster_ctx = [], rand_count = 0\<rparr>)"

text \<open>
  \<^verbatim>\<open>Node.__init__\<close>: draws an id and declares the node in the current cluster, or in the
  diagram when no cluster is open.
\<close>

definition Node_init :: "'id library \<Rightarrow> node_class \<Rightarrow> string \<Rightarrow> ('id diagram, 'id node) state" where
  "Node_init lib cls lbl = State (\<lambda>d.
     let i = rand_id lib (rand_count d);
         line = NodeLine i lbl cls;
         d' = d\<lparr>rand_count := Suc (rand_count d)\<rparr>
     in (\<lparr>nodeid = i, label = lbl, nclass = cls\<rparr>,
         case cluster_ctx d' of
           [] \<Rightarrow> d'\<lparr>body := body d' @ [line]\<rparr>
         | c # cs \<Rightarrow> d'\<lparr>cluster_ctx := c\<lparr>cbody := cbody c @ [line]\<rparr> # cs\<rparr>))"

text \<open>
  \<^verbatim>\<open>with Cluster(label):\<close> is \<^verbatim>\<open>Cluster.__init__\<close> and \<^verbatim>\<open>__enter__\<close> at the head of the block
  and \<^verbatim>\<open>__exit__\<close> at its end. The new cluster takes the current one as its parent and
  becomes the current one; on exit its graph is added to the parent's as a subgraph (to
  the diagram's when it has no parent) and the parent is the current cluster again.
  A \<^verbatim>\<open>with\<close> block leaves only a cluster it has entered, so \<open>Cluster_exit\<close> with no open
  cluster does not occur; the model leaves the diagram as it is there.
\<close>

definition Cluster_enter :: "string \<Rightarrow> ('id diagram, unit) state" where
  "Cluster_enter lbl = State (\<lambda>d.
     let dp = (case cluster_ctx d of [] \<Rightarrow> 0 | p # _ \<Rightarrow> Suc (depth p))
     in ((), d\<lparr>cluster_ctx := \<lparr>clabel = lbl, depth = dp, cbody = []\<rparr> # cluster_ctx d\<rparr>))"

definition Cluster_exit :: "('id diagram, unit) state" where
  "Cluster_exit = State (\<lambda>d.
     ((), case cluster_ctx d of
            [] \<Rightarrow> d
          | [c] \<Rightarrow> d\<lparr>body := body d @ [Subgraph (clabel c) (cbody c)], cluster_ctx := []\<rparr>
          | c # p # cs \<Rightarrow>
              d\<lparr>cluster_ctx := p\<lparr>cbody := cbody p @ [Subgraph (clabel c) (cbody c)]\<rparr> # cs\<rparr>))"

text \<open>
  An \<^verbatim>\<open>Edge\<close> object. Each one in the script is used in a single expression, so it is
  passed by value and the operators return the updated object.
\<close>

record 'id edge_obj =
  node :: "'id node option"
  forward :: bool
  reverse :: bool
  attrs :: attrs

definition Edge_init ::
  "'id library \<Rightarrow> 'id node option \<Rightarrow> bool \<Rightarrow> bool \<Rightarrow> string \<Rightarrow> string \<Rightarrow> string \<Rightarrow> 'id edge_obj" where
  "Edge_init lib nd fwd rv lbl color style =
     (let a0 = default_edge_attrs lib;
          a1 = (if lbl \<noteq> [] then a0(''label'' \<mapsto> lbl) else a0);
          a2 = (if color \<noteq> [] then a1(''color'' \<mapsto> color) else a1);
          a3 = (if style \<noteq> [] then a2(''style'' \<mapsto> style) else a2)
      in \<lparr>node = nd, forward = fwd, reverse = rv, attrs = a3\<rparr>)"

text \<open>The property \<^verbatim>\<open>Edge.attrs\<close>: the attributes and the direction the two flags give.\<close>

definition Edge_attrs :: "'id edge_obj \<Rightarrow> attrs" where
  "Edge_attrs e =
     (attrs e)(''dir'' \<mapsto>
        (if forward e \<and> reverse e then ''both''
         else if forward e then ''forward''
         else if reverse e then ''back''
         else ''none''))"

text \<open>
  \<^verbatim>\<open>Node.connect(node, edge)\<close> calls \<^verbatim>\<open>Diagram.connect(self, node, edge)\<close>, which appends the
  edge from \<open>self\<close> to \<open>node\<close> to the diagram, and returns \<open>node\<close>.
\<close>

definition Node_connect :: "'id node \<Rightarrow> 'id node \<Rightarrow> 'id edge_obj \<Rightarrow> ('id diagram, 'id node) state" where
  "Node_connect self nd e = State (\<lambda>d.
     (nd, d\<lparr>edges := edges d @ [\<lparr>tail = nodeid self, head = nodeid nd, eattrs = Edge_attrs e\<rparr>]\<rparr>))"

text \<open>
  The operands of \<^verbatim>\<open>>>\<close> and \<^verbatim>\<open><<\<close> in the script are nodes and edges (the package also takes
  lists of nodes, which the script never passes).
\<close>

datatype 'id operand = N "'id node" | E "'id edge_obj"

fun Edge_connect :: "'id edge_obj \<Rightarrow> 'id operand \<Rightarrow> ('id diagram, 'id operand) state" where
  "Edge_connect self (E other) = State_Monad.return (E (self\<lparr>attrs := attrs other\<rparr>))"
| "Edge_connect self (N other) =
     (case node self of
        Some n \<Rightarrow> do { r \<leftarrow> Node_connect n other self; State_Monad.return (N r) }
      | None \<Rightarrow> State_Monad.return (E (self\<lparr>node := Some other\<rparr>)))"

fun Node_rshift :: "'id library \<Rightarrow> 'id node \<Rightarrow> 'id operand \<Rightarrow> ('id diagram, 'id operand) state" where
  "Node_rshift lib self (N other) =
     do { r \<leftarrow> Node_connect self other (Edge_init lib (Some self) True False [] [] []);
          State_Monad.return (N r) }"
| "Node_rshift lib self (E other) =
     State_Monad.return (E (other\<lparr>forward := True, node := Some self\<rparr>))"

fun Node_lshift :: "'id library \<Rightarrow> 'id node \<Rightarrow> 'id operand \<Rightarrow> ('id diagram, 'id operand) state" where
  "Node_lshift lib self (N other) =
     do { r \<leftarrow> Node_connect self other (Edge_init lib (Some self) False True [] [] []);
          State_Monad.return (N r) }"
| "Node_lshift lib self (E other) = Edge_connect (other\<lparr>reverse := True\<rparr>) (N self)"

definition Edge_rshift :: "'id edge_obj \<Rightarrow> 'id operand \<Rightarrow> ('id diagram, 'id operand) state" where
  "Edge_rshift self other = Edge_connect (self\<lparr>forward := True\<rparr>) other"

definition Edge_lshift :: "'id edge_obj \<Rightarrow> 'id operand \<Rightarrow> ('id diagram, 'id operand) state" where
  "Edge_lshift self other = Edge_connect (self\<lparr>reverse := True\<rparr>) other"

text \<open>\<^verbatim>\<open>a >> b\<close> and \<^verbatim>\<open>a << b\<close>: Python calls the method of the left operand's class.\<close>

fun rshift :: "'id library \<Rightarrow> 'id operand \<Rightarrow> 'id operand \<Rightarrow> ('id diagram, 'id operand) state" where
  "rshift lib (N a) b = Node_rshift lib a b"
| "rshift lib (E a) b = Edge_rshift a b"

fun lshift :: "'id library \<Rightarrow> 'id operand \<Rightarrow> 'id operand \<Rightarrow> ('id diagram, 'id operand) state" where
  "lshift lib (N a) b = Node_lshift lib a b"
| "lshift lib (E a) b = Edge_lshift a b"

text \<open>\<^verbatim>\<open>Edge(label=..., color=..., style=...)\<close> as the script calls it: keywords only.\<close>

definition Edge :: "'id library \<Rightarrow> string \<Rightarrow> string \<Rightarrow> string \<Rightarrow> 'id operand" where
  "Edge lib lbl color style = E (Edge_init lib None False False lbl color style)"

subsection \<open>The script\<close>

text \<open>Lines 14 to 18: the attributes passed to the diagram.\<close>

definition graph_attr :: attrs where
  "graph_attr = [''fontsize'' \<mapsto> ''16'', ''bgcolor'' \<mapsto> ''white'', ''splines'' \<mapsto> ''ortho'']"

text \<open>The local variables of the script: one handle for each node it constructs.\<close>

record 'id handles =
  user :: "'id node"
  waf :: "'id node"
  cloudfront :: "'id node"
  dns_fw :: "'id node"
  ec2 :: "'id node"
  docker :: "'id node"
  iam :: "'id node"
  secrets :: "'id node"
  inspector :: "'id node"
  detective :: "'id node"
  cloudwatch :: "'id node"
  ssm :: "'id node"
  eventbridge :: "'id node"
  janitor_lambda :: "'id node"
  external :: "'id node"

text \<open>Lines 22 to 58: the nodes and the clusters around them.\<close>

definition build_nodes :: "'id library \<Rightarrow> ('id diagram, 'id handles) state" where
  "build_nodes lib = do {
     user \<leftarrow> Node_init lib User ''User'';
     _ \<leftarrow> Cluster_enter ''AWS Cloud'';
       _ \<leftarrow> Cluster_enter ''Ingress Layer'';
         waf \<leftarrow> Node_init lib WAF ''WAF\<newline>Rate Limit + Rules'';
         cloudfront \<leftarrow> Node_init lib CloudFront ''CloudFront\<newline>HTTPS Only'';
       _ \<leftarrow> Cluster_exit;
       _ \<leftarrow> Cluster_enter ''VPC'';
         dns_fw \<leftarrow> Node_init lib Route53 ''DNS Firewall\<newline>Allowlist Only'';
         _ \<leftarrow> Cluster_enter ''Private Subnet'';
           ec2 \<leftarrow> Node_init lib EC2 ''EC2\<newline>OpenClaw Gateway'';
           docker \<leftarrow> Node_init lib Docker ''Docker\<newline>Agent Sandboxes'';
           iam \<leftarrow> Node_init lib IAMRole ''IAM Role\<newline>Least Privilege'';
           secrets \<leftarrow> Node_init lib SecretsManager ''Secrets Mgr\<newline>API Keys'';
         _ \<leftarrow> Cluster_exit;
       _ \<leftarrow> Cluster_exit;
       _ \<leftarrow> Cluster_enter ''Security Monitoring'';
         inspector \<leftarrow> Node_init lib Inspector ''Inspector\<newline>Vuln Scanning'';
         detective \<leftarrow> Node_init lib Detective ''GuardDuty\<newline>Threat Detection'';
         cloudwatch \<leftarrow> Node_init lib Cloudwatch ''CloudWatch\<newline>Alarms + Logs'';
       _ \<leftarrow> Cluster_exit;
       _ \<leftarrow> Cluster_enter ''Cloud Janitor'';
         ssm \<leftarrow> Node_init lib SystemsManager ''SSM\<newline>Patch Manager'';
         eventbridge \<leftarrow> Node_init lib Eventbridge ''EventBridge\<newline>Scheduler'';
         janitor_lambda \<leftarrow> Node_init lib Lambda ''Lambda\<newline>Cleanup Tasks'';
       _ \<leftarrow> Cluster_exit;
       external \<leftarrow> Node_init lib Python ''External APIs\<newline>OpenAI / Anthropic'';
     _ \<leftarrow> Cluster_exit;
     State_Monad.return \<lparr>user = user, waf = waf, cloudfront = cloudfront, dns_fw = dns_fw,
       ec2 = ec2, docker = docker, iam = iam, secrets = secrets, inspector = inspector,
       detective = detective, cloudwatch = cloudwatch, ssm = ssm, eventbridge = eventbridge,
       janitor_lambda = janitor_lambda, external = external\<rparr>
   }"

text \<open>
  Lines 63 to 80: the data flows. A chain \<^verbatim>\<open>a >> b >> c\<close> is \<^verbatim>\<open>(a >> b) >> c\<close>: each operator
  is applied to the value the one before it returned.
\<close>

definition data_flows :: "'id library \<Rightarrow> 'id handles \<Rightarrow> ('id diagram, unit) state" where
  "data_flows lib h = do {
     x \<leftarrow> rshift lib (N (user h)) (Edge lib ''HTTPS'' [] []);
     x \<leftarrow> rshift lib x (N (waf h));
     x \<leftarrow> rshift lib x (N (cloudfront h));
     _ \<leftarrow> rshift lib x (N (ec2 h));

     x \<leftarrow> rshift lib (N (ec2 h)) (Edge lib ''spawn'' [] []);
     _ \<leftarrow> rshift lib x (N (docker h));
     x \<leftarrow> rshift lib (N (ec2 h)) (Edge lib [] [] ''dotted'');
     _ \<leftarrow> rshift lib x (N (iam h));
     x \<leftarrow> lshift lib (N (ec2 h)) (Edge lib [] ''darkgreen'' []);
     _ \<leftarrow> lshift lib x (N (secrets h));

     x \<leftarrow> rshift lib (N (docker h)) (N (dns_fw h));
     _ \<leftarrow> rshift lib x (N (external h));

     x \<leftarrow> rshift lib (N (ec2 h)) (Edge lib [] ''gray'' ''dashed'');
     _ \<leftarrow> rshift lib x (N (inspector h));
     x \<leftarrow> rshift lib (N (ec2 h)) (Edge lib [] ''gray'' ''dashed'');
     _ \<leftarrow> rshift lib x (N (detective h));
     x \<leftarrow> rshift lib (N (ec2 h)) (Edge lib [] ''gray'' ''dashed'');
     _ \<leftarrow> rshift lib x (N (cloudwatch h));

     _ \<leftarrow> rshift lib (N (eventbridge h)) (N (janitor_lambda h));
     _ \<leftarrow> rshift lib (N (ssm h)) (N (ec2 h));
     State_Monad.return ()
   }"

text \<open>
  Line 20 and the whole block under it. The result is the script's handles and the
  diagram as it stands when the block ends, which is what is handed to the renderer.
  The curve style is not passed, so it is the package's default \<^verbatim>\<open>ortho\<close>.
\<close>

definition openclaw_diagram :: "'id library \<Rightarrow> error + ('id handles \<times> 'id diagram)" where
  "openclaw_diagram lib =
     (case Diagram_init lib ''OpenClaw Security Architecture'' False ''TB'' ''ortho'' graph_attr of
        Inl e \<Rightarrow> Inl e
      | Inr d0 \<Rightarrow>
          (case run_state (build_nodes lib) d0 of
             (h, d1) \<Rightarrow> Inr (h, snd (run_state (data_flows lib h) d1))))"

subsection \<open>Reading the diagram\<close>

text \<open>All node declarations of a graph body, those inside its subgraphs included.\<close>

fun node_decls :: "'id item list \<Rightarrow> ('id \<times> string \<times> node_class) list" where
  "node_decls [] = []"
| "node_decls (NodeLine i l c # xs) = (i, l, c) # node_decls xs"
| "node_decls (Subgraph l b # xs) = node_decls b @ node_decls xs"

text \<open>
  The containment relation of a graph body: one pair for each declaration, the container
  first (\<open>None\<close> is the diagram itself, \<open>Some l\<close> the cluster labelled \<open>l\<close>), the node or
  cluster it directly contains second.
\<close>

datatype 'id member = MNode 'id | MCluster string

fun containment :: "string option \<Rightarrow> 'id item list \<Rightarrow> (string option \<times> 'id member) list" where
  "containment p [] = []"
| "containment p (NodeLine i l c # xs) = (p, MNode i) # containment p xs"
| "containment p (Subgraph l b # xs) =
     (p, MCluster l) # containment (Some l) b @ containment p xs"

definition containers :: "'id diagram \<Rightarrow> 'id member \<Rightarrow> string option list" where
  "containers d m = map fst (filter (\<lambda>pc. snd pc = m) (containment None (body d)))"

definition cluster_parents :: "'id diagram \<Rightarrow> 'id member \<Rightarrow> string list" where
  "cluster_parents d m = concat (map (\<lambda>p. case p of None \<Rightarrow> [] | Some l \<Rightarrow> [l]) (containers d m))"

text \<open>Cluster nesting: the pairs (parent cluster, child cluster).\<close>

definition nesting :: "'id diagram \<Rightarrow> (string \<times> string) set" where
  "nesting d =
     set (concat (map (\<lambda>pc. case pc of (Some p, MCluster c) \<Rightarrow> [(p, c)] | _ \<Rightarrow> [])
       (containment None (body d))))"

text \<open>
  The containment structure of a diagram under construction: what is declared so far,
  and the clusters that are still open.
\<close>

definition containment_tree :: "'id diagram \<Rightarrow> 'id item list \<times> 'id cluster list" where
  "containment_tree d = (body d, cluster_ctx d)"

text \<open>
  The way an edge points. Graphviz draws the arrowhead of an edge at its head when \<^verbatim>\<open>dir\<close>
  is \<^verbatim>\<open>forward\<close> and at its tail when \<^verbatim>\<open>dir\<close> is \<^verbatim>\<open>back\<close>: the arrow runs from \<open>source\<close> to
  \<open>destination\<close>. An edge with \<^verbatim>\<open>dir\<close> \<^verbatim>\<open>both\<close> or \<^verbatim>\<open>none\<close> points neither way.
\<close>

definition directed :: "'id edge \<Rightarrow> ('id \<times> 'id) option" where
  "directed e =
     (if eattrs e ''dir'' = Some ''forward'' then Some (tail e, head e)
      else if eattrs e ''dir'' = Some ''back'' then Some (head e, tail e)
      else None)"

definition joins :: "'id \<Rightarrow> 'id \<Rightarrow> 'id edge \<Rightarrow> bool" where
  "joins a b e = (tail e = a \<and> head e = b \<or> tail e = b \<and> head e = a)"

definition multi_line :: "string \<Rightarrow> bool" where
  "multi_line l = (CHR ''\<newline>'' \<in> set l)"

text \<open>The fifteen handles, in the order the script constructs them.\<close>

definition handle_list :: "'id handles \<Rightarrow> 'id node list" where
  "handle_list h = [user h, waf h, cloudfront h, dns_fw h, ec2 h, docker h, iam h, secrets h,
     inspector h, detective h, cloudwatch h, ssm h, eventbridge h, janitor_lambda h, external h]"

text \<open>A library for concrete runs: no default attributes, the \<open>k\<close>-th id is \<open>k\<close>.\<close>

definition counting_library :: "nat library" where
  "counting_library =
     \<lparr>default_graph_attrs = Map.empty, default_edge_attrs = Map.empty, rand_id = (\<lambda>k. k)\<rparr>"

section \<open>Running the script\<close>

text \<open>
  Each operation on a diagram written out field by field, so that the script can be run
  one statement at a time.
\<close>

lemma Node_init_root:
  "run_state (Node_init lib cls lbl)
     \<lparr>name = nm, show_image = sh, graph_attrs = ga, body = b, edges = es, cluster_ctx = [], rand_count = n\<rparr>
   = (\<lparr>nodeid = rand_id lib n, label = lbl, nclass = cls\<rparr>,
      \<lparr>name = nm, show_image = sh, graph_attrs = ga, body = b @ [NodeLine (rand_id lib n) lbl cls],
       edges = es, cluster_ctx = [], rand_count = n + 1\<rparr>)"
  by (simp add: Node_init_def Let_def)

lemma Node_init_cluster:
  "run_state (Node_init lib cls lbl)
     \<lparr>name = nm, show_image = sh, graph_attrs = ga, body = b, edges = es,
      cluster_ctx = \<lparr>clabel = cl, depth = dp, cbody = cb\<rparr> # cs, rand_count = n\<rparr>
   = (\<lparr>nodeid = rand_id lib n, label = lbl, nclass = cls\<rparr>,
      \<lparr>name = nm, show_image = sh, graph_attrs = ga, body = b, edges = es,
       cluster_ctx = \<lparr>clabel = cl, depth = dp, cbody = cb @ [NodeLine (rand_id lib n) lbl cls]\<rparr> # cs,
       rand_count = n + 1\<rparr>)"
  by (simp add: Node_init_def Let_def)

lemma Cluster_enter_root:
  "run_state (Cluster_enter lbl)
     \<lparr>name = nm, show_image = sh, graph_attrs = ga, body = b, edges = es, cluster_ctx = [], rand_count = n\<rparr>
   = ((), \<lparr>name = nm, show_image = sh, graph_attrs = ga, body = b, edges = es,
       cluster_ctx = [\<lparr>clabel = lbl, depth = 0, cbody = []\<rparr>], rand_count = n\<rparr>)"
  by (simp add: Cluster_enter_def)

lemma Cluster_enter_nested:
  "run_state (Cluster_enter lbl)
     \<lparr>name = nm, show_image = sh, graph_attrs = ga, body = b, edges = es,
      cluster_ctx = \<lparr>clabel = cl, depth = dp, cbody = cb\<rparr> # cs, rand_count = n\<rparr>
   = ((), \<lparr>name = nm, show_image = sh, graph_attrs = ga, body = b, edges = es,
       cluster_ctx = \<lparr>clabel = lbl, depth = Suc dp, cbody = []\<rparr> # \<lparr>clabel = cl, depth = dp, cbody = cb\<rparr> # cs,
       rand_count = n\<rparr>)"
  by (simp add: Cluster_enter_def)

lemma Cluster_exit_top:
  "run_state Cluster_exit
     \<lparr>name = nm, show_image = sh, graph_attrs = ga, body = b, edges = es,
      cluster_ctx = [\<lparr>clabel = cl, depth = dp, cbody = cb\<rparr>], rand_count = n\<rparr>
   = ((), \<lparr>name = nm, show_image = sh, graph_attrs = ga, body = b @ [Subgraph cl cb], edges = es,
       cluster_ctx = [], rand_count = n\<rparr>)"
  by (simp add: Cluster_exit_def)

lemma Cluster_exit_nested:
  "run_state Cluster_exit
     \<lparr>name = nm, show_image = sh, graph_attrs = ga, body = b, edges = es,
      cluster_ctx = \<lparr>clabel = cl, depth = dp, cbody = cb\<rparr> # \<lparr>clabel = pl, depth = pd, cbody = pb\<rparr> # cs,
      rand_count = n\<rparr>
   = ((), \<lparr>name = nm, show_image = sh, graph_attrs = ga, body = b, edges = es,
       cluster_ctx = \<lparr>clabel = pl, depth = pd, cbody = pb @ [Subgraph cl cb]\<rparr> # cs, rand_count = n\<rparr>)"
  by (simp add: Cluster_exit_def)

lemmas build_steps = Node_init_root Node_init_cluster Cluster_enter_root Cluster_enter_nested
  Cluster_exit_top Cluster_exit_nested

lemma build_nodes_run:
  "run_state (build_nodes lib)
     \<lparr>name = nm, show_image = sh, graph_attrs = ga, body = [], edges = [], cluster_ctx = [], rand_count = 0\<rparr>
   = (\<lparr>user = \<lparr>nodeid = rand_id lib 0, label = ''User'', nclass = User\<rparr>,
       waf = \<lparr>nodeid = rand_id lib 1, label = ''WAF\<newline>Rate Limit + Rules'', nclass = WAF\<rparr>,
       cloudfront = \<lparr>nodeid = rand_id lib 2, label = ''CloudFront\<newline>HTTPS Only'', nclass = CloudFront\<rparr>,
       dns_fw = \<lparr>nodeid = rand_id lib 3, label = ''DNS Firewall\<newline>Allowlist Only'', nclass = Route53\<rparr>,
       ec2 = \<lparr>nodeid = rand_id lib 4, label = ''EC2\<newline>OpenClaw Gateway'', nclass = EC2\<rparr>,
       docker = \<lparr>nodeid = rand_id lib 5, label = ''Docker\<newline>Agent Sandboxes'', nclass = Docker\<rparr>,
       iam = \<lparr>nodeid = rand_id lib 6, label = ''IAM Role\<newline>Least Privilege'', nclass = IAMRole\<rparr>,
       secrets = \<lparr>nodeid = rand_id lib 7, label = ''Secrets Mgr\<newline>API Keys'', nclass = SecretsManager\<rparr>,
       inspector = \<lparr>nodeid = rand_id lib 8, label = ''Inspector\<newline>Vuln Scanning'', nclass = Inspector\<rparr>,
       detective = \<lparr>nodeid = rand_id lib 9, label = ''GuardDuty\<newline>Threat Detection'', nclass = Detective\<rparr>,
       cloudwatch = \<lparr>nodeid = rand_id lib 10, label = ''CloudWatch\<newline>Alarms + Logs'', nclass = Cloudwatch\<rparr>,
       ssm = \<lparr>nodeid = rand_id lib 11, label = ''SSM\<newline>Patch Manager'', nclass = SystemsManager\<rparr>,
       eventbridge = \<lparr>nodeid = rand_id lib 12, label = ''EventBridge\<newline>Scheduler'', nclass = Eventbridge\<rparr>,
       janitor_lambda = \<lparr>nodeid = rand_id lib 13, label = ''Lambda\<newline>Cleanup Tasks'', nclass = Lambda\<rparr>,
       external = \<lparr>nodeid = rand_id lib 14, label = ''External APIs\<newline>OpenAI / Anthropic'', nclass = Python\<rparr>\<rparr>,
      \<lparr>name = nm, show_image = sh, graph_attrs = ga,
       body =
         [NodeLine (rand_id lib 0) ''User'' User,
          Subgraph ''AWS Cloud''
           [Subgraph ''Ingress Layer''
             [NodeLine (rand_id lib 1) ''WAF\<newline>Rate Limit + Rules'' WAF,
              NodeLine (rand_id lib 2) ''CloudFront\<newline>HTTPS Only'' CloudFront],
            Subgraph ''VPC''
             [NodeLine (rand_id lib 3) ''DNS Firewall\<newline>Allowlist Only'' Route53,
              Subgraph ''Private Subnet''
               [NodeLine (rand_id lib 4) ''EC2\<newline>OpenClaw Gateway'' EC2,
                NodeLine (rand_id lib 5) ''Docker\<newline>Agent Sandboxes'' Docker,
                NodeLine (rand_id lib 6) ''IAM Role\<newline>Least Privilege'' IAMRole,
                NodeLine (rand_id lib 7) ''Secrets Mgr\<newline>API Keys'' SecretsManager]],
            Subgraph ''Security Monitoring''
             [NodeLine (rand_id lib 8) ''Inspector\<newline>Vuln Scanning'' Inspector,
              NodeLine (rand_id lib 9) ''GuardDuty\<newline>Threat Detection'' Detective,
              NodeLine (rand_id lib 10) ''CloudWatch\<newline>Alarms + Logs'' Cloudwatch],
            Subgraph ''Cloud Janitor''
             [NodeLine (rand_id lib 11) ''SSM\<newline>Patch Manager'' SystemsManager,
              NodeLine (rand_id lib 12) ''EventBridge\<newline>Scheduler'' Eventbridge,
              NodeLine (rand_id lib 13) ''Lambda\<newline>Cleanup Tasks'' Lambda],
            NodeLine (rand_id lib 14) ''External APIs\<newline>OpenAI / Anthropic'' Python]],
       edges = [], cluster_ctx = [], rand_count = 15\<rparr>)"
  by (simp add: build_nodes_def build_steps eval_nat_numeral)

lemma Node_connect_run:
  "run_state (Node_connect a b e)
     \<lparr>name = nm, show_image = sh, graph_attrs = ga, body = bd, edges = es, cluster_ctx = cs, rand_count = n\<rparr>
   = (b, \<lparr>name = nm, show_image = sh, graph_attrs = ga, body = bd,
       edges = es @ [\<lparr>tail = nodeid a, head = nodeid b, eattrs = Edge_attrs e\<rparr>],
       cluster_ctx = cs, rand_count = n\<rparr>)"
  by (simp add: Node_connect_def)

lemmas flow_steps = Node_connect_run Edge_rshift_def Edge_lshift_def Edge_def Edge_init_def
  Edge_attrs_def

lemma data_flows_run:
  "run_state (data_flows lib h)
     \<lparr>name = nm, show_image = sh, graph_attrs = ga, body = bd, edges = [], cluster_ctx = cs, rand_count = n\<rparr>
   = ((), \<lparr>name = nm, show_image = sh, graph_attrs = ga, body = bd,
       edges =
         [\<lparr>tail = nodeid (user h), head = nodeid (waf h),
            eattrs = (default_edge_attrs lib)(''label'' \<mapsto> ''HTTPS'', ''dir'' \<mapsto> ''forward'')\<rparr>,
          \<lparr>tail = nodeid (waf h), head = nodeid (cloudfront h),
            eattrs = (default_edge_attrs lib)(''dir'' \<mapsto> ''forward'')\<rparr>,
          \<lparr>tail = nodeid (cloudfront h), head = nodeid (ec2 h),
            eattrs = (default_edge_attrs lib)(''dir'' \<mapsto> ''forward'')\<rparr>,
          \<lparr>tail = nodeid (ec2 h), head = nodeid (docker h),
            eattrs = (default_edge_attrs lib)(''label'' \<mapsto> ''spawn'', ''dir'' \<mapsto> ''forward'')\<rparr>,
          \<lparr>tail = nodeid (ec2 h), head = nodeid (iam h),
            eattrs = (default_edge_attrs lib)(''style'' \<mapsto> ''dotted'', ''dir'' \<mapsto> ''forward'')\<rparr>,
          \<lparr>tail = nodeid (ec2 h), head = nodeid (secrets h),
            eattrs = (default_edge_attrs lib)(''color'' \<mapsto> ''darkgreen'', ''dir'' \<mapsto> ''back'')\<rparr>,
          \<lparr>tail = nodeid (docker h), head = nodeid (dns_fw h),
            eattrs = (default_edge_attrs lib)(''dir'' \<mapsto> ''forward'')\<rparr>,
          \<lparr>tail = nodeid (dns_fw h), head = nodeid (external h),
            eattrs = (default_edge_attrs lib)(''dir'' \<mapsto> ''forward'')\<rparr>,
          \<lparr>tail = nodeid (ec2 h), head = nodeid (inspector h),
            eattrs = (default_edge_attrs lib)
              (''color'' \<mapsto> ''gray'', ''style'' \<mapsto> ''dashed'', ''dir'' \<mapsto> ''forward'')\<rparr>,
          \<lparr>tail = nodeid (ec2 h), head = nodeid (detective h),
            eattrs = (default_edge_attrs lib)
              (''color'' \<mapsto> ''gray'', ''style'' \<mapsto> ''dashed'', ''dir'' \<mapsto> ''forward'')\<rparr>,
          \<lparr>tail = nodeid (ec2 h), head = nodeid (cloudwatch h),
            eattrs = (default_edge_attrs lib)
              (''color'' \<mapsto> ''gray'', ''style'' \<mapsto> ''dashed'', ''dir'' \<mapsto> ''forward'')\<rparr>,
          \<lparr>tail = nodeid (eventbridge h), head = nodeid (janitor_lambda h),
            eattrs = (default_edge_attrs lib)(''dir'' \<mapsto> ''forward'')\<rparr>,
          \<lparr>tail = nodeid (ssm h), head = nodeid (ec2 h),
            eattrs = (default_edge_attrs lib)(''dir'' \<mapsto> ''forward'')\<rparr>],
       cluster_ctx = cs, rand_count = n\<rparr>)"
  by (simp add: data_flows_def flow_steps)

lemma Diagram_init_run:
  "Diagram_init lib nm sh ''TB'' ''ortho'' ga
   = Inr \<lparr>name = nm, show_image = sh,
       graph_attrs =
         (default_graph_attrs lib)(''label'' \<mapsto> nm, ''rankdir'' \<mapsto> ''TB'', ''splines'' \<mapsto> ''ortho'') ++ ga,
       body = [], edges = [], cluster_ctx = [], rand_count = 0\<rparr>"
  by (simp add: Diagram_init_def directions_def curvestyles_def upper_char_def lower_char_def)

lemmas run_script = openclaw_diagram_def Diagram_init_run build_nodes_run data_flows_run

text \<open>Ids that are pairwise distinct are equal only when drawn at the same time.\<close>

lemma ids_eq_iff:
  assumes "distinct (map (rand_id lib) [0..<15])" and "i < 15" and "j < 15"
  shows "(rand_id lib i = rand_id lib j) = (i = j)"
proof -
  from assms(1) have "inj_on (rand_id lib) (set [0..<15])"
    by (simp only: distinct_map)
  moreover from assms(2,3) have "i \<in> set [0..<15]" and "j \<in> set [0..<15]"
    by simp_all
  ultimately show ?thesis
    by (rule inj_on_eq_iff)
qed

text \<open>A member that is declared once has one container.\<close>

lemma filter_distinct_le1:
  "distinct (map snd xs) \<Longrightarrow> length (filter (\<lambda>pc. snd pc = m) xs) \<le> 1"
proof (induction xs)
  case Nil
  then show ?case by simp
next
  case (Cons x xs)
  show ?case
  proof (cases "snd x = m")
    case True
    with Cons.prems have "m \<notin> snd ` set xs" by auto
    then have "filter (\<lambda>pc. snd pc = m) xs = []"
      by (auto simp: filter_empty_conv)
    with True show ?thesis by simp
  next
    case False
    with Cons show ?thesis by simp
  qed
qed

lemma containers_le1:
  "distinct (map snd (containment None (body d))) \<Longrightarrow> length (containers d m) \<le> 1"
  unfolding containers_def length_map by (rule filter_distinct_le1)

lemma cluster_parents_le_containers: "length (cluster_parents d m) \<le> length (containers d m)"
proof -
  have "length (concat (map (\<lambda>p. case p of None \<Rightarrow> [] | Some l \<Rightarrow> [l]) ps)) \<le> length ps"
    for ps :: "string option list"
    by (induction ps) (auto split: option.splits)
  then show ?thesis by (simp add: cluster_parents_def)
qed

text \<open>The operators that build edges touch neither the declarations nor the open clusters.\<close>

lemma Node_connect_tree:
  "containment_tree (snd (run_state (Node_connect a b e) d)) = containment_tree d"
  by (simp add: Node_connect_def containment_tree_def)

lemma Edge_connect_tree:
  "containment_tree (snd (run_state (Edge_connect e x) d)) = containment_tree d"
  by (cases x) (simp_all add: Node_connect_tree case_prod_beta split: option.split)

lemma rshift_tree:
  "containment_tree (snd (run_state (rshift lib a b) d)) = containment_tree d"
  by (cases a; cases b) (simp_all add: Edge_rshift_def Node_connect_tree case_prod_beta split: option.split)

lemma lshift_tree:
  "containment_tree (snd (run_state (lshift lib a b) d)) = containment_tree d"
  by (cases a; cases b) (simp_all add: Edge_lshift_def Node_connect_tree case_prod_beta split: option.split)

lemma bind_tree:
  assumes "\<And>d. containment_tree (snd (run_state m d)) = containment_tree d"
    and "\<And>x d. containment_tree (snd (run_state (f x) d)) = containment_tree d"
  shows "containment_tree (snd (run_state (State_Monad.bind m f) d)) = containment_tree d"
proof -
  obtain x d' where md: "run_state m d = (x, d')" by (cases "run_state m d")
  then have "containment_tree d' = containment_tree d"
    using assms(1) [of d] by simp
  moreover have "containment_tree (snd (run_state (f x) d')) = containment_tree d'"
    by (rule assms(2))
  ultimately show ?thesis using md by simp
qed

lemma return_tree:
  "containment_tree (snd (run_state (State_Monad.return x) d)) = containment_tree d"
  by simp

lemma data_flows_tree:
  "containment_tree (snd (run_state (data_flows lib h) d)) = containment_tree d"
  unfolding data_flows_def
  by (intro bind_tree rshift_tree lshift_tree return_tree)

lemma cluster_parents_tree:
  "containment_tree d' = containment_tree d \<Longrightarrow> cluster_parents d' m = cluster_parents d m"
  by (simp add: containment_tree_def cluster_parents_def containers_def)

section \<open>Properties of the diagram\<close>

text \<open>
  C1. Referential integrity of the edges: the script runs without an error and leaves
  thirteen edges; the tail and the head of each are ids of handles the script constructed,
  and each is the id of a node declared in the diagram (at top level or in a cluster).
\<close>

theorem edges_reference_constructed_nodes:
  "\<exists>h d. openclaw_diagram lib = Inr (h, d) \<and>
     length (edges d) = 13 \<and>
     list_all (\<lambda>e. tail e \<in> set (map nodeid (handle_list h)) \<and>
                    head e \<in> set (map nodeid (handle_list h))) (edges d) \<and>
     list_all (\<lambda>e. tail e \<in> set (map fst (node_decls (body d))) \<and>
                    head e \<in> set (map fst (node_decls (body d)))) (edges d)"
  by (simp add: run_script handle_list_def)

text \<open>
  C3. Connecting two nodes appends exactly one edge to the diagram's edge list, whatever
  the list already holds. After the script the list holds thirteen edges which point, in
  this order, user to waf, waf to cloudfront, cloudfront to ec2, ec2 to docker, ec2 to iam,
  secrets to ec2, docker to dns_fw, dns_fw to external, ec2 to inspector, ec2 to detective,
  ec2 to cloudwatch, eventbridge to janitor_lambda, ssm to ec2.
\<close>

theorem edge_list_in_source_order:
  "(\<forall>a b e (d :: 'id diagram).
      edges (snd (run_state (Node_connect a b e) d)) =
        edges d @ [\<lparr>tail = nodeid a, head = nodeid b, eattrs = Edge_attrs e\<rparr>]) \<and>
   (\<exists>h d. openclaw_diagram (lib :: 'id library) = Inr (h, d) \<and>
     map directed (edges d) =
       [Some (nodeid (user h), nodeid (waf h)),
        Some (nodeid (waf h), nodeid (cloudfront h)),
        Some (nodeid (cloudfront h), nodeid (ec2 h)),
        Some (nodeid (ec2 h), nodeid (docker h)),
        Some (nodeid (ec2 h), nodeid (iam h)),
        Some (nodeid (secrets h), nodeid (ec2 h)),
        Some (nodeid (docker h), nodeid (dns_fw h)),
        Some (nodeid (dns_fw h), nodeid (external h)),
        Some (nodeid (ec2 h), nodeid (inspector h)),
        Some (nodeid (ec2 h), nodeid (detective h)),
        Some (nodeid (ec2 h), nodeid (cloudwatch h)),
        Some (nodeid (eventbridge h), nodeid (janitor_lambda h)),
        Some (nodeid (ssm h), nodeid (ec2 h))])"
  by (simp add: run_script directed_def Node_connect_def)

text \<open>
  C4. The diagram the script builds carries the title OpenClaw Security Architecture, the
  layout direction TB, the font size 16, the background colour white and the spline style
  ortho, whatever the package's own defaults are.
\<close>

theorem diagram_render_attributes:
  "\<exists>h d. openclaw_diagram lib = Inr (h, d) \<and>
     name d = ''OpenClaw Security Architecture'' \<and>
     graph_attrs d ''label'' = Some ''OpenClaw Security Architecture'' \<and>
     graph_attrs d ''rankdir'' = Some ''TB'' \<and>
     graph_attrs d ''fontsize'' = Some ''16'' \<and>
     graph_attrs d ''bgcolor'' = Some ''white'' \<and>
     graph_attrs d ''splines'' = Some ''ortho''"
  by (simp add: run_script graph_attr_def map_add_def)

text \<open>
  C2. When the fifteen ids drawn are pairwise distinct, the containment structure the script builds is a
  tree: no node and no cluster is declared in more than one container, so each has at most
  one cluster parent; cluster nesting has no cycle; AWS Cloud is at top level and contains
  Ingress Layer, VPC, Security Monitoring and Cloud Janitor; VPC contains Private Subnet.
\<close>

theorem cluster_containment_is_tree:
  assumes "distinct (map (rand_id lib) [0..<15])"
  shows "\<exists>h d. openclaw_diagram lib = Inr (h, d) \<and>
     (\<forall>m. length (containers d m) \<le> 1) \<and>
     (\<forall>m. length (cluster_parents d m) \<le> 1) \<and>
     acyclic (nesting d) \<and>
     cluster_parents d (MCluster ''AWS Cloud'') = [] \<and>
     cluster_parents d (MCluster ''Ingress Layer'') = [''AWS Cloud''] \<and>
     cluster_parents d (MCluster ''VPC'') = [''AWS Cloud''] \<and>
     cluster_parents d (MCluster ''Security Monitoring'') = [''AWS Cloud''] \<and>
     cluster_parents d (MCluster ''Cloud Janitor'') = [''AWS Cloud''] \<and>
     cluster_parents d (MCluster ''Private Subnet'') = [''VPC'']"
proof -
  let ?r = "{(''AWS Cloud'', ''Ingress Layer''), (''AWS Cloud'', ''VPC''),
       (''VPC'', ''Private Subnet''), (''AWS Cloud'', ''Security Monitoring''),
       (''AWS Cloud'', ''Cloud Janitor'')}"
  have "\<exists>h d. openclaw_diagram lib = Inr (h, d) \<and>
     distinct (map snd (containment None (body d))) \<and>
     nesting d \<subseteq> ?r \<and>
     (cluster_parents d (MCluster ''AWS Cloud'') = [] \<and>
     cluster_parents d (MCluster ''Ingress Layer'') = [''AWS Cloud''] \<and>
     cluster_parents d (MCluster ''VPC'') = [''AWS Cloud''] \<and>
     cluster_parents d (MCluster ''Security Monitoring'') = [''AWS Cloud''] \<and>
     cluster_parents d (MCluster ''Cloud Janitor'') = [''AWS Cloud''] \<and>
     cluster_parents d (MCluster ''Private Subnet'') = [''VPC''])"
    by (simp add: run_script ids_eq_iff [OF assms] nesting_def cluster_parents_def
        containers_def)
  then obtain h d where run: "openclaw_diagram lib = Inr (h, d)"
    and dist: "distinct (map snd (containment None (body d)))"
    and nest: "nesting d \<subseteq> ?r"
    and facts: "cluster_parents d (MCluster ''AWS Cloud'') = [] \<and>
     cluster_parents d (MCluster ''Ingress Layer'') = [''AWS Cloud''] \<and>
     cluster_parents d (MCluster ''VPC'') = [''AWS Cloud''] \<and>
     cluster_parents d (MCluster ''Security Monitoring'') = [''AWS Cloud''] \<and>
     cluster_parents d (MCluster ''Cloud Janitor'') = [''AWS Cloud''] \<and>
     cluster_parents d (MCluster ''Private Subnet'') = [''VPC'']"
    by (elim exE conjE) (rule that, simp_all)
  have one: "\<forall>m. length (containers d m) \<le> 1"
    using dist by (intro allI containers_le1)
  have one': "\<forall>m. length (cluster_parents d m) \<le> 1"
  proof
    fix m
    from one have "length (containers d m) \<le> 1" by (rule spec)
    with cluster_parents_le_containers show "length (cluster_parents d m) \<le> 1"
      by (rule order_trans)
  qed
  have "acyclic ?r"
    by (rule acyclicI_order [where f = "\<lambda>s. if s = ''AWS Cloud'' then 2 :: nat
          else if s = ''VPC'' then 1 else 0"]) auto
  then have acyc: "acyclic (nesting d)"
    using nest by (rule acyclic_subset)
  show ?thesis
    by (rule exI [of _ h], rule exI [of _ d]) (intro conjI run one one' acyc facts [THEN conjunct1] facts)
qed

theorem cluster_containment_is_tree_witness:
  "distinct (map (rand_id counting_library) [0..<15]) \<and>
   (\<exists>h d. openclaw_diagram counting_library = Inr (h, d) \<and>
     (\<forall>m. length (containers d m) \<le> 1) \<and>
     (\<forall>m. length (cluster_parents d m) \<le> 1) \<and>
     acyclic (nesting d) \<and>
     cluster_parents d (MCluster ''AWS Cloud'') = [] \<and>
     cluster_parents d (MCluster ''Ingress Layer'') = [''AWS Cloud''] \<and>
     cluster_parents d (MCluster ''VPC'') = [''AWS Cloud''] \<and>
     cluster_parents d (MCluster ''Security Monitoring'') = [''AWS Cloud''] \<and>
     cluster_parents d (MCluster ''Cloud Janitor'') = [''AWS Cloud''] \<and>
     cluster_parents d (MCluster ''Private Subnet'') = [''VPC''])"
proof -
  have h: "distinct (map (rand_id counting_library) [0..<15])"
    by (simp add: counting_library_def)
  show ?thesis
    using h cluster_containment_is_tree [OF h] by (rule conjI)
qed

text \<open>
  C7. Constructing an edge never changes the containment tree. From every state of the
  diagram, each application of \<^verbatim>\<open>>>\<close> or \<^verbatim>\<open><<\<close> to nodes and edges, and the whole block of
  data flows of the script, leaves the declared nodes and clusters and the open clusters
  as they were, so the cluster parents of every node and cluster are the same before and
  after; it does not matter which clusters the two endpoints lie in.
\<close>

theorem edges_leave_containment_unchanged:
  "containment_tree (snd (run_state (rshift lib a b) d)) = containment_tree d \<and>
   containment_tree (snd (run_state (lshift lib a b) d)) = containment_tree d \<and>
   containment_tree (snd (run_state (data_flows lib h) d)) = containment_tree d \<and>
   cluster_parents (snd (run_state (rshift lib a b) d)) m = cluster_parents d m \<and>
   cluster_parents (snd (run_state (lshift lib a b) d)) m = cluster_parents d m \<and>
   cluster_parents (snd (run_state (data_flows lib h) d)) m = cluster_parents d m"
  by (intro conjI cluster_parents_tree rshift_tree lshift_tree data_flows_tree)

text \<open>
  C8, as amended. Every node construction passes a label and a class with an icon
  category, and every label is non-empty. The fourteen nodes from WAF to the Python node
  have labels of two lines; the label of the User node is the single line \<^verbatim>\<open>User\<close>.
  The declarations of the diagram are those of the fifteen handles, in this order.
\<close>

theorem node_labels_are_nonempty:
  "\<exists>h d. openclaw_diagram lib = Inr (h, d) \<and>
     node_decls (body d) = map (\<lambda>n. (nodeid n, label n, nclass n)) (handle_list h) \<and>
     list_all (\<lambda>n. label n \<noteq> []) (handle_list h) \<and>
     map (\<lambda>n. (label n, category (nclass n), multi_line (label n))) (handle_list h) =
       [(''User'', ''onprem.client'', False),
        (''WAF\<newline>Rate Limit + Rules'', ''aws.security'', True),
        (''CloudFront\<newline>HTTPS Only'', ''aws.network'', True),
        (''DNS Firewall\<newline>Allowlist Only'', ''aws.network'', True),
        (''EC2\<newline>OpenClaw Gateway'', ''aws.compute'', True),
        (''Docker\<newline>Agent Sandboxes'', ''onprem.container'', True),
        (''IAM Role\<newline>Least Privilege'', ''aws.security'', True),
        (''Secrets Mgr\<newline>API Keys'', ''aws.security'', True),
        (''Inspector\<newline>Vuln Scanning'', ''aws.security'', True),
        (''GuardDuty\<newline>Threat Detection'', ''aws.security'', True),
        (''CloudWatch\<newline>Alarms + Logs'', ''aws.management'', True),
        (''SSM\<newline>Patch Manager'', ''aws.management'', True),
        (''EventBridge\<newline>Scheduler'', ''aws.integration'', True),
        (''Lambda\<newline>Cleanup Tasks'', ''aws.compute'', True),
        (''External APIs\<newline>OpenAI / Anthropic'', ''programming.language'', True)]"
  by (simp add: run_script handle_list_def multi_line_def)

text \<open>
  C8, as stated, says that all fifteen labels are multi-line. The label of the User node
  (line 22) has no line break: in the run whose \<open>k\<close>-th id is \<open>k\<close> it is not multi-line.
\<close>

theorem user_label_is_single_line:
  "map_sum id (multi_line \<circ> label \<circ> user \<circ> fst) (openclaw_diagram counting_library) = Inr False"
  by (simp add: run_script multi_line_def)

text \<open>
  C9. When the fifteen ids drawn are pairwise distinct, the User node is declared once, directly in the
  diagram, and has no cluster parent: not every node of the diagram lies in a cluster.
\<close>

theorem user_node_has_no_cluster_parent:
  assumes "distinct (map (rand_id lib) [0..<15])"
  shows "\<exists>h d. openclaw_diagram lib = Inr (h, d) \<and>
     containers d (MNode (nodeid (user h))) = [None] \<and>
     cluster_parents d (MNode (nodeid (user h))) = [] \<and>
     \<not> list_all (\<lambda>n. cluster_parents d (MNode (nodeid n)) \<noteq> []) (handle_list h)"
  by (simp add: run_script ids_eq_iff [OF assms] cluster_parents_def containers_def
      handle_list_def)

theorem user_node_has_no_cluster_parent_witness:
  "distinct (map (rand_id counting_library) [0..<15]) \<and>
   (\<exists>h d. openclaw_diagram counting_library = Inr (h, d) \<and>
     containers d (MNode (nodeid (user h))) = [None] \<and>
     cluster_parents d (MNode (nodeid (user h))) = [] \<and>
     \<not> list_all (\<lambda>n. cluster_parents d (MNode (nodeid n)) \<noteq> []) (handle_list h))"
proof -
  have h: "distinct (map (rand_id counting_library) [0..<15])"
    by (simp add: counting_library_def)
  show ?thesis
    using h user_node_has_no_cluster_parent [OF h] by (rule conjI)
qed

text \<open>
  C10. \<^verbatim>\<open>a << Edge(color=c) << b\<close> appends one edge, registered with tail \<open>a\<close>, head \<open>b\<close> and
  direction \<^verbatim>\<open>back\<close>: its arrow runs from \<open>b\<close> to \<open>a\<close>. In the script, when the
  fifteen ids drawn are pairwise distinct, the sixth edge is the only one between secrets and ec2; it points from
  secrets to ec2 and not from ec2 to secrets, and its colour is darkgreen.
\<close>

theorem secrets_edge_points_to_ec2:
  assumes "distinct (map (rand_id lib) [0..<15])"
  shows "(\<forall>a b c d.
      map directed (edges (snd (run_state
        (do { x \<leftarrow> lshift lib (N a) (Edge lib [] c []); lshift lib x (N b) }) d))) =
      map directed (edges d) @ [Some (nodeid b, nodeid a)]) \<and>
   (\<exists>h d. openclaw_diagram lib = Inr (h, d) \<and>
     filter (joins (nodeid (secrets h)) (nodeid (ec2 h))) (edges d) = [edges d ! 5] \<and>
     directed (edges d ! 5) = Some (nodeid (secrets h), nodeid (ec2 h)) \<and>
     directed (edges d ! 5) \<noteq> Some (nodeid (ec2 h), nodeid (secrets h)) \<and>
     eattrs (edges d ! 5) ''color'' = Some ''darkgreen'' \<and>
     tail (edges d ! 5) = nodeid (ec2 h) \<and>
     head (edges d ! 5) = nodeid (secrets h) \<and>
     eattrs (edges d ! 5) ''dir'' = Some ''back'')"
proof (rule conjI)
  show "\<forall>a b c d.
      map directed (edges (snd (run_state
        (do { x \<leftarrow> lshift lib (N a) (Edge lib [] c []); lshift lib x (N b) }) d))) =
      map directed (edges d) @ [Some (nodeid b, nodeid a)]"
    by (simp add: Edge_def Edge_init_def Edge_lshift_def Node_connect_def Edge_attrs_def
        directed_def Let_def)
next
  show "\<exists>h d. openclaw_diagram lib = Inr (h, d) \<and>
     filter (joins (nodeid (secrets h)) (nodeid (ec2 h))) (edges d) = [edges d ! 5] \<and>
     directed (edges d ! 5) = Some (nodeid (secrets h), nodeid (ec2 h)) \<and>
     directed (edges d ! 5) \<noteq> Some (nodeid (ec2 h), nodeid (secrets h)) \<and>
     eattrs (edges d ! 5) ''color'' = Some ''darkgreen'' \<and>
     tail (edges d ! 5) = nodeid (ec2 h) \<and>
     head (edges d ! 5) = nodeid (secrets h) \<and>
     eattrs (edges d ! 5) ''dir'' = Some ''back''"
    by (simp add: run_script ids_eq_iff [OF assms] joins_def directed_def)
qed

theorem secrets_edge_points_to_ec2_witness:
  "distinct (map (rand_id counting_library) [0..<15]) \<and>
   (\<exists>h d. openclaw_diagram counting_library = Inr (h, d) \<and>
     filter (joins (nodeid (secrets h)) (nodeid (ec2 h))) (edges d) = [edges d ! 5] \<and>
     directed (edges d ! 5) = Some (nodeid (secrets h), nodeid (ec2 h)) \<and>
     eattrs (edges d ! 5) ''color'' = Some ''darkgreen'')"
proof -
  have h: "distinct (map (rand_id counting_library) [0..<15])"
    by (simp add: counting_library_def)
  from secrets_edge_points_to_ec2 [OF h]
  have "\<exists>h d. openclaw_diagram counting_library = Inr (h, d) \<and>
     filter (joins (nodeid (secrets h)) (nodeid (ec2 h))) (edges d) = [edges d ! 5] \<and>
     directed (edges d ! 5) = Some (nodeid (secrets h), nodeid (ec2 h)) \<and>
     eattrs (edges d ! 5) ''color'' = Some ''darkgreen''"
    by blast
  with h show ?thesis by (rule conjI)
qed

end
